theory Spec2Isabelle
  imports Main
begin

section \<open>JavaScript values\<close>

text \<open>
  Request bodies are parsed JSON. A body is an object whose fields hold scalar JSON
  values; a field that is not there reads as \<open>undefined\<close>, modelled by \<open>None\<close>.
  Numbers are the integer-valued ones. \<open>String\<close> prints such a number in plain decimal
  up to \<open>10^21\<close>; a number that large is refused by the one validator that reads
  numbers, under either printing, and never reaches \<open>parseInt\<close>.
\<close>

datatype json = JNull | JBool bool | JNum int | JStr string

type_synonym jsobject = "string \<Rightarrow> json option"

text \<open>JavaScript truthiness, as used by \<open>!email\<close> and by \<open>checkFalsy\<close>.\<close>

fun truthy :: "json option \<Rightarrow> bool" where
  "truthy None = False"
| "truthy (Some JNull) = False"
| "truthy (Some (JBool b)) = b"
| "truthy (Some (JNum n)) = (n \<noteq> 0)"
| "truthy (Some (JStr s)) = (s \<noteq> [])"

fun asString :: "json option \<Rightarrow> string option" where
  "asString (Some (JStr s)) = Some s"
| "asString _ = None"

text \<open>
  A string that \<open>parseInt\<close> reads is the list of its UTF-16 code units. A \<open>char\<close> of
  the strings of this theory is the code unit of the same number, below 256.
\<close>

type_synonym codeunits = "nat list"

definition units :: "string \<Rightarrow> codeunits" where
  "units s = map of_char s"

definition isDigit :: "nat \<Rightarrow> bool" where
  "isDigit c = (48 \<le> c \<and> c \<le> 57)"

definition digitValue :: "nat \<Rightarrow> nat" where
  "digitValue c = c - 48"

text \<open>
  The characters \<open>parseInt\<close> trims: TAB, LF, VT, FF, CR, the space, U+00A0, the other
  space separators (U+1680, U+2000 to U+200A, U+202F, U+205F, U+3000), the line and
  paragraph separators U+2028 and U+2029, and U+FEFF.
\<close>

definition isWhiteSpace :: "nat \<Rightarrow> bool" where
  "isWhiteSpace c =
     (c \<in> set [0x09, 0x0A, 0x0B, 0x0C, 0x0D, 0x20, 0xA0, 0x1680,
                0x2000, 0x2001, 0x2002, 0x2003, 0x2004, 0x2005, 0x2006, 0x2007, 0x2008,
                0x2009, 0x200A, 0x2028, 0x2029, 0x202F, 0x205F, 0x3000, 0xFEFF])"

definition parseDigits :: "codeunits \<Rightarrow> int option" where
  "parseDigits s =
     (let ds = takeWhile isDigit s
      in if ds = [] then None
         else Some (int (foldl (\<lambda>a c. 10 * a + digitValue c) 0 ds)))"

text \<open>
  \<open>parseInt(s, 10)\<close>: leading white space is skipped, one sign is read, then the longest
  run of decimal digits; whatever follows the digits is ignored. With no digit the result
  is \<open>NaN\<close>, here \<open>None\<close>, so \<open>isNaN(id)\<close> is \<open>id = None\<close>. Otherwise the result
  here is the integer the digits denote. JavaScript holds it as a double, which is that
  integer up to \<open>2^53\<close> and a rounded value or \<open>Infinity\<close> beyond, never \<open>NaN\<close>; the
  handlers pass it to the store only, where everything from \<open>2^31\<close> on is out of range
  (see \<open>fitsInt\<close>), or compare it with bounds below \<open>2^31\<close>.
\<close>

definition parseInt :: "codeunits \<Rightarrow> int option" where
  "parseInt s =
     (case dropWhile isWhiteSpace s of
        [] \<Rightarrow> None
      | c # r \<Rightarrow>
          if c = 45 then map_option uminus (parseDigits r)
          else if c = 43 then parseDigits r
          else parseDigits (c # r))"

definition decimal :: "char list" where
  "decimal = ''0123456789''"

function string_of_nat :: "nat \<Rightarrow> string" where
  "string_of_nat n =
     (if n < 10 then [decimal ! n]
      else string_of_nat (n div 10) @ [decimal ! (n mod 10)])"
  by pat_completeness auto
termination
  by (relation "measure (\<lambda>n. n)") auto

definition string_of_int :: "int \<Rightarrow> string" where
  "string_of_int i =
     (if i < 0 then CHR ''-'' # string_of_nat (nat (- i)) else string_of_nat (nat i))"

text \<open>\<open>String(v)\<close>, the coercion \<open>parseInt\<close> applies to an argument that is not a string.\<close>

fun jsString :: "json option \<Rightarrow> string" where
  "jsString None = ''undefined''"
| "jsString (Some JNull) = ''null''"
| "jsString (Some (JBool b)) = (if b then ''true'' else ''false'')"
| "jsString (Some (JNum n)) = string_of_int n"
| "jsString (Some (JStr s)) = s"

definition parseIntValue :: "json option \<Rightarrow> int option" where
  "parseIntValue v = parseInt (units (jsString v))"

text \<open>\<open>const isAdult = (age) => age >= 18\<close>; a comparison with \<open>NaN\<close> is false.\<close>

fun isAdult :: "int option \<Rightarrow> bool" where
  "isAdult None = False"
| "isAdult (Some age) = (18 \<le> age)"

section \<open>Body validation\<close>

text \<open>
  The chains of \<open>express-validator\<close>. A standard validator is applied to the string
  form of the value, in which \<open>null\<close> and \<open>undefined\<close> are the empty string; every
  validator of a chain runs, and each failure adds one error with the message given by
  \<open>withMessage\<close> or the default one. \<open>isEmail\<close> is taken from the library, as a
  parameter.
\<close>

datatype verror = VError (ve_param: string) (ve_msg: string) (ve_value: "json option")

fun toString :: "json option \<Rightarrow> string" where
  "toString None = []"
| "toString (Some JNull) = []"
| "toString v = jsString v"

definition isString :: "json option \<Rightarrow> bool" where
  "isString v = (asString v \<noteq> None)"

definition notEmpty :: "json option \<Rightarrow> bool" where
  "notEmpty v = (toString v \<noteq> [])"

text \<open>
  \<open>validator.isInt(str, {min, max})\<close>: the pattern \<open>[-+]?[0-9]+\<close> (leading zeroes are
  allowed unless the options say otherwise), then the bounds on the number read.
\<close>

definition intPattern :: "string \<Rightarrow> bool" where
  "intPattern s =
     (let unsigned = (case s of [] \<Rightarrow> []
                      | c # r \<Rightarrow> if c = CHR ''-'' \<or> c = CHR ''+'' then r else c # r)
      in unsigned \<noteq> [] \<and> list_all (\<lambda>c. isDigit (of_char c)) unsigned)"

definition isInt :: "int \<Rightarrow> int \<Rightarrow> json option \<Rightarrow> bool" where
  "isInt lo hi v =
     (intPattern (toString v) \<and>
      (case parseInt (units (toString v)) of None \<Rightarrow> False | Some n \<Rightarrow> lo \<le> n \<and> n \<le> hi))"

definition isIn :: "string list \<Rightarrow> json option \<Rightarrow> bool" where
  "isIn options v = (toString v \<in> set options)"

text \<open>
  \<open>optional()\<close> skips a chain when the field is \<open>undefined\<close>, \<open>{nullable: true}\<close> also
  when it is \<open>null\<close>, \<open>{checkFalsy: true}\<close> whenever it is falsy.
\<close>

datatype presence = Required | Optional | OptionalNullable | OptionalFalsy

fun skipped :: "presence \<Rightarrow> json option \<Rightarrow> bool" where
  "skipped Required v = False"
| "skipped Optional v = (v = None)"
| "skipped OptionalNullable v = (v = None \<or> v = Some JNull)"
| "skipped OptionalFalsy v = (\<not> truthy v)"

definition runChain ::
  "string \<Rightarrow> presence \<Rightarrow> ((json option \<Rightarrow> bool) \<times> string) list \<Rightarrow> jsobject \<Rightarrow> verror list" where
  "runChain field p chain b =
     (if skipped p (b field) then []
      else map (\<lambda>(ok, msg). VError field msg (b field))
               (filter (\<lambda>(ok, msg). \<not> ok (b field)) chain))"

definition userValidators ::
  "(string \<Rightarrow> bool) \<Rightarrow> presence \<Rightarrow> presence \<Rightarrow> presence \<Rightarrow> presence \<Rightarrow> jsobject \<Rightarrow> verror list" where
  "userValidators isEmail pName pEmail pAge pRole b =
     runChain ''name'' pName [(isString, ''Invalid value''), (notEmpty, ''Name is required'')] b @
     runChain ''email'' pEmail
       [(notEmpty, ''Email is required''),
        (\<lambda>v. isEmail (toString v), ''Valid email format is required'')] b @
     runChain ''age'' pAge [(isInt 0 125, ''Age must be between 0 and 125'')] b @
     runChain ''role'' pRole [(isIn [''admin'', ''user''], ''Role must be admin or user'')] b"

section \<open>The data store\<close>

text \<open>
  Modelled from the spec: the module \<open>prismaClient\<close> and the database behind it, which
  the handlers call as \<open>prisma.user\<close> and \<open>prisma.authUser\<close>. The collaborator exposes
  findMany, findFirst, findUnique, create, update, delete and deleteMany on resource
  records, filtered by id and owner id, and findUnique and create on accounts keyed by
  email. The migrations of the repository give the constraints: the serial primary key
  and the unique email of \<open>AuthUser\<close>, and the non-null \<open>ownerId\<close> of \<open>User\<close> that
  references \<open>AuthUser.id\<close>. A violated constraint is an error value whose \<open>code\<close> is the
  one the handlers inspect: P2025 when a record an operation depends on is not found,
  P2002 for the unique constraint; an argument of the wrong type is refused before the
  query, by an error with no \<open>code\<close>. Every call is appended to \<open>calls\<close>, so that
  a handler that does not touch the store leaves the whole state as it was.
  The id column is a 32-bit integer: a query for an id outside its range is refused with
  an error that depends on the version of the client, the store's \<open>rangeError\<close>. The
  columns \<open>name\<close>, \<open>email\<close> and \<open>role\<close> take any string. The order in which
  \<open>findMany\<close> lists the records is the order of the list \<open>users\<close>.
\<close>

record user =
  u_id :: int
  u_name :: string
  u_email :: string
  u_age :: int
  u_role :: string
  u_adult :: bool
  u_ownerId :: int

record authUser =
  a_id :: int
  a_email :: string
  a_passwordHash :: string

datatype call =
    UserFindMany | UserFindFirst | UserFindUnique | UserCreate | UserUpdate | UserDelete
  | UserDeleteMany | AuthUserFindUnique | AuthUserCreate

datatype js_error = JsError (code: "string option")

record store =
  users :: "user list"
  authUsers :: "authUser list"
  userSeq :: int
  authUserSeq :: int
  rangeError :: "int \<Rightarrow> js_error"
  calls :: "call list"

definition fitsInt :: "int \<Rightarrow> bool" where
  "fitsInt i = (- (2 ^ 31) \<le> i \<and> i < 2 ^ 31)"

text \<open>The \<open>data\<close> argument of create and update; \<open>d_age\<close> is a number that may be \<open>NaN\<close>.\<close>

record userData =
  d_name :: "json option"
  d_email :: "json option"
  d_age :: "int option option"
  d_role :: "json option"
  d_adult :: "bool option"
  d_owner :: "int option"

definition logged :: "call \<Rightarrow> store \<Rightarrow> store" where
  "logged c s = s\<lparr>calls := calls s @ [c]\<rparr>"

definition ownedBy :: "int option \<Rightarrow> user \<Rightarrow> bool" where
  "ownedBy w u = (case w of None \<Rightarrow> True | Some a \<Rightarrow> u_ownerId u = a)"

definition user_findMany :: "int option \<Rightarrow> store \<Rightarrow> (js_error + user list) \<times> store" where
  "user_findMany w s = (Inr (filter (ownedBy w) (users s)), logged UserFindMany s)"

definition user_findFirst :: "int \<Rightarrow> int \<Rightarrow> store \<Rightarrow> (js_error + user option) \<times> store" where
  "user_findFirst i a s =
     (if \<not> fitsInt i then (Inl (rangeError s i), logged UserFindFirst s)
      else (Inr (find (\<lambda>u. u_id u = i \<and> u_ownerId u = a) (users s)), logged UserFindFirst s))"


definition user_create :: "userData \<Rightarrow> store \<Rightarrow> (js_error + user) \<times> store" where
  "user_create d s =
     (let s1 = logged UserCreate s
      in case asString (d_name d) of None \<Rightarrow> (Inl (JsError None), s1) | Some n \<Rightarrow>
         (case asString (d_email d) of None \<Rightarrow> (Inl (JsError None), s1) | Some e \<Rightarrow>
         (case d_age d of None \<Rightarrow> (Inl (JsError None), s1) | Some None \<Rightarrow> (Inl (JsError None), s1)
          | Some (Some ag) \<Rightarrow>
         (case asString (d_role d) of None \<Rightarrow> (Inl (JsError None), s1) | Some r \<Rightarrow>
         (case d_adult d of None \<Rightarrow> (Inl (JsError None), s1) | Some ad \<Rightarrow>
         (case d_owner d of None \<Rightarrow> (Inl (JsError None), s1) | Some ow \<Rightarrow>
            if find (\<lambda>a. a_id a = ow) (authUsers s) = None
            then (Inl (JsError (Some ''P2025'')), s1)
            else
              (let u = \<lparr>u_id = userSeq s, u_name = n, u_email = e, u_age = ag, u_role = r,
                        u_adult = ad, u_ownerId = ow\<rparr>
               in (Inr u, s1\<lparr>users := users s @ [u], userSeq := userSeq s + 1\<rparr>))))))))"

definition validUpdate :: "userData \<Rightarrow> bool" where
  "validUpdate d =
     ((d_name d = None \<or> asString (d_name d) \<noteq> None) \<and>
      (d_email d = None \<or> asString (d_email d) \<noteq> None) \<and>
      d_age d \<noteq> Some None \<and>
      (d_role d = None \<or> asString (d_role d) \<noteq> None))"

definition applyData :: "userData \<Rightarrow> user \<Rightarrow> user" where
  "applyData d u =
     u\<lparr>u_name := (case asString (d_name d) of Some n \<Rightarrow> n | None \<Rightarrow> u_name u),
       u_email := (case asString (d_email d) of Some e \<Rightarrow> e | None \<Rightarrow> u_email u),
       u_age := (case d_age d of Some (Some ag) \<Rightarrow> ag | _ \<Rightarrow> u_age u),
       u_role := (case asString (d_role d) of Some r \<Rightarrow> r | None \<Rightarrow> u_role u),
       u_adult := (case d_adult d of Some ad \<Rightarrow> ad | None \<Rightarrow> u_adult u)\<rparr>"

definition user_update :: "int \<Rightarrow> userData \<Rightarrow> store \<Rightarrow> (js_error + user) \<times> store" where
  "user_update i d s =
     (let s1 = logged UserUpdate s
      in if \<not> fitsInt i then (Inl (rangeError s i), s1)
         else if \<not> validUpdate d then (Inl (JsError None), s1)
         else case find (\<lambda>u. u_id u = i) (users s) of
                None \<Rightarrow> (Inl (JsError (Some ''P2025'')), s1)
              | Some u0 \<Rightarrow>
                  (Inr (applyData d u0),
                   s1\<lparr>users := map (\<lambda>u. if u_id u = i then applyData d u else u) (users s)\<rparr>))"

definition user_delete :: "int \<Rightarrow> store \<Rightarrow> (js_error + user) \<times> store" where
  "user_delete i s =
     (let s1 = logged UserDelete s
      in if \<not> fitsInt i then (Inl (rangeError s i), s1)
         else case find (\<lambda>u. u_id u = i) (users s) of
           None \<Rightarrow> (Inl (JsError (Some ''P2025'')), s1)
         | Some u0 \<Rightarrow> (Inr u0, s1\<lparr>users := filter (\<lambda>u. u_id u \<noteq> i) (users s)\<rparr>))"

definition user_deleteMany :: "int option \<Rightarrow> store \<Rightarrow> (js_error + nat) \<times> store" where
  "user_deleteMany w s =
     (Inr (length (filter (ownedBy w) (users s))),
      (logged UserDeleteMany s)\<lparr>users := filter (\<lambda>u. \<not> ownedBy w u) (users s)\<rparr>)"

definition authUser_findUnique ::
  "json option \<Rightarrow> store \<Rightarrow> (js_error + authUser option) \<times> store" where
  "authUser_findUnique email s =
     (let s1 = logged AuthUserFindUnique s
      in case asString email of
           None \<Rightarrow> (Inl (JsError None), s1)
         | Some e \<Rightarrow> (Inr (find (\<lambda>a. a_email a = e) (authUsers s)), s1))"

definition authUser_create ::
  "json option \<Rightarrow> string \<Rightarrow> store \<Rightarrow> (js_error + authUser) \<times> store" where
  "authUser_create email passwordHash s =
     (let s1 = logged AuthUserCreate s
      in case asString email of
           None \<Rightarrow> (Inl (JsError None), s1)
         | Some e \<Rightarrow>
             if find (\<lambda>a. a_email a = e) (authUsers s) \<noteq> None
             then (Inl (JsError (Some ''P2002'')), s1)
             else
               (let a = \<lparr>a_id = authUserSeq s, a_email = e, a_passwordHash = passwordHash\<rparr>
                in (Inr a, s1\<lparr>authUsers := authUsers s @ [a],
                               authUserSeq := authUserSeq s + 1\<rparr>)))"

section \<open>Requests, responses and the libraries\<close>

text \<open>
  \<open>jsonwebtoken\<close> and \<open>bcrypt\<close> are parameters. \<open>jwt_verify\<close> is
  \<open>jwt.verify(token, JWT_SECRET, ...)\<close> at the time of the request: \<open>None\<close> when the
  callback gets an error, otherwise the decoded payload. \<open>jwt_sign payload expiresIn\<close> is
  \<open>jwt.sign\<close> with the same secret.
\<close>

record identity =
  ident_id :: int
  ident_email :: string

record lib =
  jwt_verify :: "string \<Rightarrow> identity option"
  jwt_sign :: "identity \<Rightarrow> string \<Rightarrow> string"
  bcrypt_hash :: "string \<Rightarrow> string"
  bcrypt_compare :: "string \<Rightarrow> string \<Rightarrow> bool"
  isEmail :: "string \<Rightarrow> bool"

record request =
  authorization :: "string option"
  param_id :: codeunits
  body :: jsobject

datatype rbody =
    NoBody
  | Message string
  | ErrorsObject string "string option"
  | ErrorsArray "verror list"
  | UserJson user
  | UsersJson "user list"
  | DeletedCount nat
  | Registered string "json option"
  | TokenJson string

text \<open>
  A response is a status and a JSON body. \<open>Unhandled\<close> is the outcome of a handler whose
  promise is rejected outside any \<open>try\<close>: no response is written by the handler.
\<close>

datatype response = Response nat rbody | Unhandled js_error

type_synonym handler = "store \<Rightarrow> response \<times> store"

text \<open>\<open>s.split(" ")\<close>: the pieces between single spaces, empty pieces included.\<close>

fun split :: "string \<Rightarrow> string list" where
  "split [] = [[]]"
| "split (c # cs) =
     (if c = CHR '' '' then [] # split cs
      else case split cs of [] \<Rightarrow> [[c]] | w # ws \<Rightarrow> (c # w) # ws)"

text \<open>
  \<open>authHeader && authHeader.split(" ")[1]\<close>: \<open>undefined\<close> without a header or without a
  second piece; an empty header is itself the (falsy) result.
\<close>

definition headerToken :: "string option \<Rightarrow> string option" where
  "headerToken authHeader =
     (case authHeader of
        None \<Rightarrow> None
      | Some h \<Rightarrow> if h = [] then Some []
                  else (case split h of _ # t # _ \<Rightarrow> Some t | _ \<Rightarrow> None))"

section \<open>The owner-scoped module\<close>

definition handlePrismaError :: "js_error \<Rightarrow> string \<Rightarrow> response" where
  "handlePrismaError err action =
     (if code err = Some ''P2025''
      then Response 404 (Message (action @ '' failed: record not found''))
      else
        (let status = (if code err \<noteq> None \<and> code err \<noteq> Some [] then 500 else 400)
         in Response status (Message (action @ '' failed''))))"

definition authenticateToken ::
  "lib \<Rightarrow> request \<Rightarrow> (identity \<Rightarrow> handler) \<Rightarrow> handler" where
  "authenticateToken L req next s =
     (case headerToken (authorization req) of
        None \<Rightarrow> (Response 401 (ErrorsObject ''No token provided'' (Some ''NO_TOKEN'')), s)
      | Some token \<Rightarrow>
          if token = []
          then (Response 401 (ErrorsObject ''No token provided'' (Some ''NO_TOKEN'')), s)
          else
            (case jwt_verify L token of
               None \<Rightarrow>
                 (Response 403
                    (ErrorsObject ''Invalid or expired token - log out and log in again''
                       (Some ''INVALID_TOKEN'')), s)
             | Some user \<Rightarrow> next user s))"

definition hello :: "request \<Rightarrow> handler" where
  "hello req s = (Response 200 (Message ''Hello, API Testing!''), s)"

definition getUsers :: "lib \<Rightarrow> request \<Rightarrow> handler" where
  "getUsers L req =
     authenticateToken L req (\<lambda>user s.
       case user_findMany (Some (ident_id user)) s of
         (Inl err, s') \<Rightarrow> (handlePrismaError err ''Fetch users'', s')
       | (Inr us, s') \<Rightarrow> (Response 200 (UsersJson us), s'))"

definition getUserById :: "lib \<Rightarrow> request \<Rightarrow> handler" where
  "getUserById L req =
     authenticateToken L req (\<lambda>user s.
       case parseInt (param_id req) of
         None \<Rightarrow> (Response 400 (Message ''Invalid ID''), s)
       | Some i \<Rightarrow>
           (case user_findFirst i (ident_id user) s of
              (Inl err, s') \<Rightarrow> (handlePrismaError err ''Fetch user'', s')
            | (Inr None, s') \<Rightarrow> (Response 404 (Message ''User not found''), s')
            | (Inr (Some u), s') \<Rightarrow> (Response 200 (UserJson u), s')))"

definition postUsers :: "lib \<Rightarrow> request \<Rightarrow> handler" where
  "postUsers L req =
     authenticateToken L req (\<lambda>user s.
       let errors = userValidators (isEmail L) Required Required Required Required (body req)
       in if errors \<noteq> [] then (Response 400 (ErrorsArray errors), s)
          else
            (let age = parseIntValue (body req ''age'');
                 newUser = \<lparr>d_name = body req ''name'', d_email = body req ''email'',
                            d_age = Some age, d_role = body req ''role'',
                            d_adult = Some (isAdult age), d_owner = Some (ident_id user)\<rparr>
             in case user_create newUser s of
                  (Inl err, s') \<Rightarrow> (handlePrismaError err ''Create user'', s')
                | (Inr u, s') \<Rightarrow> (Response 201 (UserJson u), s')))"

text \<open>
  The object \<open>updateData\<close>: a field of the body is copied when it is not \<open>undefined\<close>,
  the age through \<open>parseInt\<close>, and \<open>adult\<close> is set when the age was.
\<close>

definition updateData :: "jsobject \<Rightarrow> userData" where
  "updateData b =
     (let age = (case b ''age'' of None \<Rightarrow> None | Some v \<Rightarrow> Some (parseIntValue (Some v)))
      in \<lparr>d_name = b ''name'', d_email = b ''email'', d_age = age, d_role = b ''role'',
          d_adult = (case age of None \<Rightarrow> None | Some a \<Rightarrow> Some (isAdult a)),
          d_owner = None\<rparr>)"

definition putUser :: "lib \<Rightarrow> request \<Rightarrow> handler" where
  "putUser L req =
     authenticateToken L req (\<lambda>user s.
       case parseInt (param_id req) of
         None \<Rightarrow> (Response 400 (Message ''Invalid ID''), s)
       | Some i \<Rightarrow>
           (let errors = userValidators (isEmail L) Optional Optional Optional Optional (body req)
            in if errors \<noteq> [] then (Response 400 (ErrorsArray errors), s)
               else
                 (case user_findFirst i (ident_id user) s of
                    (Inl err, s') \<Rightarrow> (handlePrismaError err ''Update user'', s')
                  | (Inr None, s') \<Rightarrow> (Response 404 (Message ''User not found''), s')
                  | (Inr (Some existing), s') \<Rightarrow>
                      (case user_update i (updateData (body req)) s' of
                         (Inl err, s'') \<Rightarrow> (handlePrismaError err ''Update user'', s'')
                       | (Inr u, s'') \<Rightarrow> (Response 200 (UserJson u), s'')))))"

definition deleteUser :: "lib \<Rightarrow> request \<Rightarrow> handler" where
  "deleteUser L req =
     authenticateToken L req (\<lambda>user s.
       case parseInt (param_id req) of
         None \<Rightarrow> (Response 400 (Message ''Invalid ID''), s)
       | Some i \<Rightarrow>
           (case user_findFirst i (ident_id user) s of
              (Inl err, s') \<Rightarrow> (handlePrismaError err ''Delete user'', s')
            | (Inr None, s') \<Rightarrow> (Response 404 (Message ''User not found''), s')
            | (Inr (Some existing), s') \<Rightarrow>
                (case user_delete i s' of
                   (Inl err, s'') \<Rightarrow> (handlePrismaError err ''Delete user'', s'')
                 | (Inr u, s'') \<Rightarrow> (Response 204 NoBody, s''))))"

definition deleteUsers :: "lib \<Rightarrow> request \<Rightarrow> handler" where
  "deleteUsers L req =
     authenticateToken L req (\<lambda>user s.
       case user_deleteMany (Some (ident_id user)) s of
         (Inl err, s') \<Rightarrow> (handlePrismaError err ''Delete all users'', s')
       | (Inr n, s') \<Rightarrow> (Response 200 (DeletedCount n), s'))"

text \<open>
  \<open>POST /register\<close> awaits the store twice, and other requests run while it waits.
  \<open>registerAmong other\<close> is the handler with \<open>other\<close>, the store writes of those
  requests, taking place between its \<open>findUnique\<close> and its \<open>create\<close>; \<open>register\<close> is
  the handler running alone. \<open>bcrypt.hash\<close> rejects data that is not a string, with an
  error that has no \<open>code\<close>.
\<close>

definition registerAmong :: "(store \<Rightarrow> store) \<Rightarrow> lib \<Rightarrow> request \<Rightarrow> handler" where
  "registerAmong other L req s =
     (let email = body req ''email''; password = body req ''password''
      in if \<not> truthy email \<or> \<not> truthy password
         then (Response 400 (Message ''Email and password are required''), s)
         else
           (case authUser_findUnique email s of
              (Inl err, s') \<Rightarrow> (handlePrismaError err ''Registration'', s')
            | (Inr (Some existing), s') \<Rightarrow> (Response 400 (Message ''Email already exists''), s')
            | (Inr None, s') \<Rightarrow>
                (case asString password of
                   None \<Rightarrow> (handlePrismaError (JsError None) ''Registration'', s')
                 | Some pw \<Rightarrow>
                     (case authUser_create email (bcrypt_hash L pw) (other s') of
                        (Inl err, s'') \<Rightarrow> (handlePrismaError err ''Registration'', s'')
                      | (Inr a, s'') \<Rightarrow>
                          (Response 201 (Registered ''User registered'' email), s'')))))"

definition register :: "lib \<Rightarrow> request \<Rightarrow> handler" where
  "register = registerAmong (\<lambda>s. s)"

definition login :: "lib \<Rightarrow> request \<Rightarrow> handler" where
  "login L req s =
     (let email = body req ''email''; password = body req ''password''
      in if \<not> truthy email \<or> \<not> truthy password
         then (Response 400 (Message ''Email and password are required''), s)
         else
           (case authUser_findUnique email s of
              (Inl err, s') \<Rightarrow> (handlePrismaError err ''Login'', s')
            | (Inr None, s') \<Rightarrow> (Response 401 (Message ''Invalid email or password''), s')
            | (Inr (Some user), s') \<Rightarrow>
                (case asString password of
                   None \<Rightarrow> (handlePrismaError (JsError None) ''Login'', s')
                 | Some pw \<Rightarrow>
                     if \<not> bcrypt_compare L pw (a_passwordHash user)
                     then (Response 401 (Message ''Invalid email or password''), s')
                     else
                       (Response 200
                          (TokenJson (jwt_sign L \<lparr>ident_id = a_id user, ident_email = a_email user\<rparr>
                                        ''300000'')), s'))))"

section \<open>The unscoped module\<close>










section \<open>Routing\<close>

datatype route =
    GET_hello | GET_users | GET_users_id | POST_users | PUT_users_id | DELETE_users_id
  | DELETE_users | POST_register | POST_login

fun app :: "lib \<Rightarrow> route \<Rightarrow> request \<Rightarrow> handler" where
  "app L GET_hello = hello"
| "app L GET_users = getUsers L"
| "app L GET_users_id = getUserById L"
| "app L POST_users = postUsers L"
| "app L PUT_users_id = putUser L"
| "app L DELETE_users_id = deleteUser L"
| "app L DELETE_users = deleteUsers L"
| "app L POST_register = register L"
| "app L POST_login = login L"


section \<open>Notions used by the properties\<close>

text \<open>
  The identity that \<open>authenticateToken\<close> attaches to a request as \<open>req.user\<close>, when it
  lets the request through.
\<close>

definition caller :: "lib \<Rightarrow> request \<Rightarrow> identity option" where
  "caller L req =
     (case headerToken (authorization req) of
        None \<Rightarrow> None
      | Some token \<Rightarrow> if token = [] then None else jwt_verify L token)"

text \<open>A library, a store and requests to run the handlers on.\<close>

definition alice :: identity where
  "alice = \<lparr>ident_id = 1, ident_email = ''a@x.com''\<rparr>"

definition bob :: identity where
  "bob = \<lparr>ident_id = 2, ident_email = ''b@x.com''\<rparr>"

definition exampleLib :: lib where
  "exampleLib =
     \<lparr>jwt_verify = (\<lambda>t. if t = ''tokA'' then Some alice else if t = ''tokB'' then Some bob else None),
      jwt_sign = (\<lambda>p e. ''jwt:'' @ ident_email p @ '':'' @ e),
      bcrypt_hash = (\<lambda>p. ''h:'' @ p),
      bcrypt_compare = (\<lambda>p h. h = ''h:'' @ p),
      isEmail = (\<lambda>e. CHR ''@'' \<in> set e)\<rparr>"

definition exampleStore :: store where
  "exampleStore =
     \<lparr>users =
        [\<lparr>u_id = 1, u_name = ''Bob'', u_email = ''b@x.com'', u_age = 17, u_role = ''user'',
          u_adult = False, u_ownerId = 1\<rparr>,
         \<lparr>u_id = 2, u_name = ''Eve'', u_email = ''e@x.com'', u_age = 40, u_role = ''admin'',
          u_adult = True, u_ownerId = 2\<rparr>],
      authUsers =
        [\<lparr>a_id = 1, a_email = ''a@x.com'', a_passwordHash = ''h:pw123''\<rparr>,
         \<lparr>a_id = 2, a_email = ''b@x.com'', a_passwordHash = ''h:secret''\<rparr>],
      userSeq = 3, authUserSeq = 3, rangeError = (\<lambda>i. JsError (Some ''P2020'')), calls = []\<rparr>"

definition exampleRequest :: "string option \<Rightarrow> string \<Rightarrow> (string \<times> json) list \<Rightarrow> request" where
  "exampleRequest h i kvs = \<lparr>authorization = h, param_id = units i, body = map_of kvs\<rparr>"

definition protected :: "route \<Rightarrow> bool" where
  "protected r =
     (r \<in> set [GET_users, GET_users_id, POST_users, PUT_users_id, DELETE_users_id, DELETE_users])"

definition byId :: "route \<Rightarrow> bool" where
  "byId r = (r \<in> set [GET_users_id, PUT_users_id, DELETE_users_id])"

definition tokenMissing :: "request \<Rightarrow> bool" where
  "tokenMissing req =
     (case headerToken (authorization req) of None \<Rightarrow> True | Some token \<Rightarrow> token = [])"

definition tokenInvalid :: "lib \<Rightarrow> request \<Rightarrow> bool" where
  "tokenInvalid L req =
     (case headerToken (authorization req) of
        None \<Rightarrow> False
      | Some token \<Rightarrow> token \<noteq> [] \<and> jwt_verify L token = None)"

text \<open>The tables of the store and its sequences: all of the state but the log of calls.\<close>

definition tables :: "store \<Rightarrow> user list \<times> authUser list \<times> int \<times> int" where
  "tables s = (users s, authUsers s, userSeq s, authUserSeq s)"


text \<open>The relation between the fields \<open>adult\<close> and \<open>age\<close> of a record.\<close>

definition adultConsistent :: "user \<Rightarrow> bool" where
  "adultConsistent u = (u_adult u = (18 \<le> u_age u))"






fun sameOutcome :: "response \<Rightarrow> response \<Rightarrow> bool" where
  "sameOutcome (Response st1 (TokenJson t1)) (Response st2 (TokenJson t2)) = (st1 = st2)"
| "sameOutcome a b = (a = b)"


section \<open>Authentication\<close>

lemma authenticateToken_caller:
  "caller L req = Some user \<Longrightarrow> authenticateToken L req next s = next user s"
  by (auto simp: caller_def authenticateToken_def split: option.splits if_splits)

lemma caller_example:
  "caller exampleLib (exampleRequest (Some ''Bearer tokA'') i b) = Some alice"
  by (simp add: caller_def exampleRequest_def headerToken_def exampleLib_def)

lemma ownedBy_Some: "ownedBy (Some a) = (\<lambda>u. u_ownerId u = a)"
  by (rule ext) (simp add: ownedBy_def)


lemma authenticateToken_missing:
  "tokenMissing req \<Longrightarrow>
   authenticateToken L req next s =
     (Response 401 (ErrorsObject ''No token provided'' (Some ''NO_TOKEN'')), s)"
  by (auto simp: tokenMissing_def authenticateToken_def split: option.splits)

lemma authenticateToken_invalid:
  "tokenInvalid L req \<Longrightarrow>
   authenticateToken L req next s =
     (Response 403
        (ErrorsObject ''Invalid or expired token - log out and log in again''
           (Some ''INVALID_TOKEN'')), s)"
  by (auto simp: tokenInvalid_def authenticateToken_def split: option.splits)

lemma app_protected:
  "protected r \<Longrightarrow> \<exists>next. app L r req = authenticateToken L req next"
  unfolding protected_def
  by (auto simp: getUsers_def getUserById_def postUsers_def putUser_def deleteUser_def
      deleteUsers_def)

section \<open>Listing and bulk deletion\<close>

text \<open>
  Claim C3. An authenticated \<open>GET /users\<close> by a caller whose token carries the id \<open>A\<close>
  is answered 200 with the records whose \<open>ownerId\<close> is \<open>A\<close>, all of them and no other,
  and the store is only read: the state afterwards differs by the logged \<open>findMany\<close>.
\<close>

theorem getUsers_owner_filtered:
  assumes "caller L req = Some user"
  shows "getUsers L req s =
           (Response 200 (UsersJson (filter (\<lambda>u. u_ownerId u = ident_id user) (users s))),
            s\<lparr>calls := calls s @ [UserFindMany]\<rparr>)
         \<and> set (filter (\<lambda>u. u_ownerId u = ident_id user) (users s)) =
             {u \<in> set (users s). u_ownerId u = ident_id user}"
  using assms
  by (simp add: getUsers_def authenticateToken_caller user_findMany_def logged_def ownedBy_Some)

theorem getUsers_owner_filtered_witness:
  "caller exampleLib (exampleRequest (Some ''Bearer tokA'') [] []) = Some alice
   \<and> getUsers exampleLib (exampleRequest (Some ''Bearer tokA'') [] []) exampleStore =
       (Response 200 (UsersJson
          [\<lparr>u_id = 1, u_name = ''Bob'', u_email = ''b@x.com'', u_age = 17, u_role = ''user'',
            u_adult = False, u_ownerId = 1\<rparr>]),
        exampleStore\<lparr>calls := [UserFindMany]\<rparr>)"
proof -
  have h: "caller exampleLib (exampleRequest (Some ''Bearer tokA'') [] []) = Some alice"
    by (rule caller_example)
  from getUsers_owner_filtered [OF h, of exampleStore] h show ?thesis
    by (simp add: exampleStore_def alice_def)
qed

text \<open>
  Claim C4. An authenticated \<open>DELETE /users\<close> by a caller with id \<open>A\<close> removes the
  records owned by \<open>A\<close> and keeps every other record as it is; the answer is 200 with
  \<open>deleted\<close> the number of records \<open>A\<close> owned before, zero included.
\<close>

theorem deleteUsers_only_own:
  assumes "caller L req = Some user"
  shows "deleteUsers L req s =
           (Response 200
              (DeletedCount (length (filter (\<lambda>u. u_ownerId u = ident_id user) (users s)))),
            s\<lparr>calls := calls s @ [UserDeleteMany],
              users := filter (\<lambda>u. u_ownerId u \<noteq> ident_id user) (users s)\<rparr>)"
  using assms
  by (simp add: deleteUsers_def authenticateToken_caller user_deleteMany_def logged_def
      ownedBy_Some)

theorem deleteUsers_only_own_witness:
  "caller exampleLib (exampleRequest (Some ''Bearer tokA'') [] []) = Some alice
   \<and> deleteUsers exampleLib (exampleRequest (Some ''Bearer tokA'') [] []) exampleStore =
       (Response 200 (DeletedCount 1),
        exampleStore\<lparr>calls := [UserDeleteMany],
          users := [\<lparr>u_id = 2, u_name = ''Eve'', u_email = ''e@x.com'', u_age = 40,
                     u_role = ''admin'', u_adult = True, u_ownerId = 2\<rparr>]\<rparr>)"
proof -
  have h: "caller exampleLib (exampleRequest (Some ''Bearer tokA'') [] []) = Some alice"
    by (rule caller_example)
  from deleteUsers_only_own [OF h, of exampleStore] h show ?thesis
    by (simp add: exampleStore_def alice_def)
qed

section \<open>Rejections at the boundary\<close>

text \<open>
  The middleware reads the second piece of the header and never looks at the first: a
  header that is not of the form \<open>Bearer <token>\<close> is answered 403 when its second piece
  does not verify, and is let through when it does.
\<close>

theorem scheme_not_checked_counterexample:
  "getUsers exampleLib (exampleRequest (Some ''Basic abc'') [] []) exampleStore =
     (Response 403
        (ErrorsObject ''Invalid or expired token - log out and log in again''
           (Some ''INVALID_TOKEN'')), exampleStore)
   \<and> fst (getUsers exampleLib (exampleRequest (Some ''Token tokA'') [] []) exampleStore) =
       Response 200 (UsersJson
          [\<lparr>u_id = 1, u_name = ''Bob'', u_email = ''b@x.com'', u_age = 17, u_role = ''user'',
            u_adult = False, u_ownerId = 1\<rparr>])"
  by (simp add: getUsers_def authenticateToken_def exampleRequest_def headerToken_def
      exampleLib_def user_findMany_def ownedBy_Some exampleStore_def alice_def logged_def)

text \<open>
  Claim C2, amended. On every protected route, a request with no \<open>Authorization\<close>
  header, or whose header has no second space-separated piece or an empty one, is
  answered 401 with code \<open>NO_TOKEN\<close>; a request whose second piece is there and fails
  \<open>jwt.verify\<close> is answered 403 with code \<open>INVALID_TOKEN\<close>, whatever the first piece is.
  In both cases the store is not called: the state is returned as it was.
\<close>

theorem token_rejected_before_store:
  assumes "protected r"
  shows "(tokenMissing req \<longrightarrow>
            app L r req s =
              (Response 401 (ErrorsObject ''No token provided'' (Some ''NO_TOKEN'')), s))
         \<and> (tokenInvalid L req \<longrightarrow>
            app L r req s =
              (Response 403
                 (ErrorsObject ''Invalid or expired token - log out and log in again''
                    (Some ''INVALID_TOKEN'')), s))"
proof -
  from app_protected [OF assms] obtain nxt where "app L r req = authenticateToken L req nxt"
    by blast
  then show ?thesis
    by (simp add: authenticateToken_missing authenticateToken_invalid)
qed

theorem token_rejected_before_store_witness:
  "protected GET_users \<and> tokenMissing (exampleRequest None [] [])
   \<and> app exampleLib GET_users (exampleRequest None [] []) exampleStore =
       (Response 401 (ErrorsObject ''No token provided'' (Some ''NO_TOKEN'')), exampleStore)
   \<and> protected PUT_users_id \<and> tokenInvalid exampleLib (exampleRequest (Some ''Bearer bad'') ''1'' [])
   \<and> app exampleLib PUT_users_id (exampleRequest (Some ''Bearer bad'') ''1'' []) exampleStore =
       (Response 403
          (ErrorsObject ''Invalid or expired token - log out and log in again''
             (Some ''INVALID_TOKEN'')), exampleStore)"
proof -
  have p1: "protected GET_users" and p2: "protected PUT_users_id"
    by (simp_all add: protected_def)
  have m: "tokenMissing (exampleRequest None [] [])"
    by (simp add: tokenMissing_def exampleRequest_def headerToken_def)
  have i: "tokenInvalid exampleLib (exampleRequest (Some ''Bearer bad'') ''1'' [])"
    by (simp add: tokenInvalid_def exampleRequest_def headerToken_def exampleLib_def)
  from token_rejected_before_store [OF p1, of "exampleRequest None [] []" exampleLib exampleStore]
    token_rejected_before_store [OF p2, of "exampleRequest (Some ''Bearer bad'') ''1'' []"
      exampleLib exampleStore] p1 p2 m i
  show ?thesis by simp
qed

text \<open>
  \<open>parseInt\<close> reads the leading digits of the path parameter: \<open>1abc\<close> is not an
  integer, and the request is served as a request for the record 1. The id is looked at
  after the token: without a token the answer is 401, whatever the id.
\<close>

theorem id_prefix_accepted_counterexample:
  "getUserById exampleLib (exampleRequest (Some ''Bearer tokA'') ''1abc'' []) exampleStore =
     (Response 200 (UserJson
        \<lparr>u_id = 1, u_name = ''Bob'', u_email = ''b@x.com'', u_age = 17, u_role = ''user'',
          u_adult = False, u_ownerId = 1\<rparr>),
      exampleStore\<lparr>calls := [UserFindFirst]\<rparr>)
   \<and> getUserById exampleLib (exampleRequest None ''abc'' []) exampleStore =
     (Response 401 (ErrorsObject ''No token provided'' (Some ''NO_TOKEN'')), exampleStore)"
  by (simp add: getUserById_def authenticateToken_def exampleRequest_def headerToken_def
      exampleLib_def user_findFirst_def exampleStore_def alice_def logged_def fitsInt_def
      parseInt_def parseDigits_def isDigit_def digitValue_def units_def isWhiteSpace_def)

text \<open>
  Claim C9, amended. An authenticated request to \<open>GET\<close>, \<open>PUT\<close> or \<open>DELETE /users/:id\<close>
  whose id parameter \<open>parseInt\<close> reads as \<open>NaN\<close> (no decimal digit after the leading
  white space and an optional sign) is answered 400 \<open>Invalid ID\<close>, and the store is not
  called.
\<close>

theorem invalid_id_rejected:
  assumes "byId r" and "caller L req = Some user" and "parseInt (param_id req) = None"
  shows "app L r req s = (Response 400 (Message ''Invalid ID''), s)"
  using assms unfolding byId_def
  by (auto simp: getUserById_def putUser_def deleteUser_def authenticateToken_caller)

theorem invalid_id_rejected_witness:
  "byId DELETE_users_id
   \<and> caller exampleLib (exampleRequest (Some ''Bearer tokA'') ''abc'' []) = Some alice
   \<and> parseInt (param_id (exampleRequest (Some ''Bearer tokA'') ''abc'' [])) = None
   \<and> app exampleLib DELETE_users_id (exampleRequest (Some ''Bearer tokA'') ''abc'' []) exampleStore =
       (Response 400 (Message ''Invalid ID''), exampleStore)"
proof -
  have b: "byId DELETE_users_id" by (simp add: byId_def)
  have c: "caller exampleLib (exampleRequest (Some ''Bearer tokA'') ''abc'' []) = Some alice"
    by (rule caller_example)
  have p: "parseInt (param_id (exampleRequest (Some ''Bearer tokA'') ''abc'' [])) = None"
    by (simp add: exampleRequest_def parseInt_def parseDigits_def isDigit_def units_def
        isWhiteSpace_def)
  from invalid_id_rejected [OF b c p, of exampleStore] b c p show ?thesis by simp
qed

section \<open>Evaluation rules\<close>

lemmas example_defs =
  exampleRequest_def exampleLib_def exampleStore_def alice_def bob_def headerToken_def

lemmas number_defs =
  parseInt_def parseDigits_def isDigit_def digitValue_def units_def isWhiteSpace_def
  parseIntValue_def string_of_int_def intPattern_def decimal_def fitsInt_def

lemmas validator_defs =
  userValidators_def runChain_def isString_def notEmpty_def isInt_def isIn_def

section \<open>Records of another owner\<close>

lemma tables_logged [simp]: "tables (logged c s) = tables s"
  by (simp add: tables_def logged_def)









section \<open>Login and registration\<close>






text \<open>
  Registration alone: an account with the email is found by the check of the handler, and
  the answer is 400 \<open>Email already exists\<close> with the tables as they were. The store itself
  never holds two accounts with one email.
\<close>

lemma register_existing:
  assumes "body req ''email'' = Some (JStr e)" and "e \<noteq> []" and "truthy (body req ''password'')"
    and "find (\<lambda>a. a_email a = e) (authUsers s) = Some a"
  shows "registerAmong other L req s =
           (Response 400 (Message ''Email already exists''), logged AuthUserFindUnique s)"
  using assms by (simp add: registerAmong_def authUser_findUnique_def)

lemma authUser_create_no_duplicate:
  assumes "distinct (map a_email (authUsers s))"
  shows "distinct (map a_email (authUsers (snd (authUser_create email h s))))"
  using assms
  by (auto simp: authUser_create_def logged_def find_None_iff Let_def split: option.splits)

text \<open>
  Claim C6. When the account with the email is created by another request after the
  check of the handler and before its \<open>create\<close>, the store refuses the second account with
  the code P2002 of the unique constraint. The claim asks for the conflict answer, 400
  \<open>Email already exists\<close>; \<open>handlePrismaError\<close> knows the code P2025 only, and the handler
  answers 500 \<open>Registration failed\<close>. No second account is created.
\<close>

theorem register_race_surfaces_500:
  assumes "body req ''email'' = Some (JStr e)" and "e \<noteq> []"
    and "body req ''password'' = Some (JStr p)" and "p \<noteq> []"
    and "find (\<lambda>a. a_email a = e) (authUsers s) = None"
    and "find (\<lambda>a. a_email a = e) (authUsers (other (logged AuthUserFindUnique s))) = Some a"
  shows "registerAmong other L req s =
           (Response 500 (Message ''Registration failed''),
            logged AuthUserCreate (other (logged AuthUserFindUnique s)))"
  using assms
  by (simp add: registerAmong_def authUser_findUnique_def authUser_create_def
      handlePrismaError_def)

theorem register_race_surfaces_500_witness:
  "registerAmong
     (\<lambda>s. snd (register exampleLib
                  (exampleRequest None []
                     [(''email'', JStr ''new@x.com''), (''password'', JStr ''pw'')]) s))
     exampleLib
     (exampleRequest None [] [(''email'', JStr ''new@x.com''), (''password'', JStr ''pw'')])
     exampleStore =
   (Response 500 (Message ''Registration failed''),
    exampleStore
      \<lparr>authUsers := authUsers exampleStore @
         [\<lparr>a_id = 3, a_email = ''new@x.com'', a_passwordHash = ''h:pw''\<rparr>],
       authUserSeq := 4,
       calls := [AuthUserFindUnique, AuthUserFindUnique, AuthUserCreate, AuthUserCreate]\<rparr>)"
proof -
  let ?req = "exampleRequest None [] [(''email'', JStr ''new@x.com''), (''password'', JStr ''pw'')]"
  let ?other = "\<lambda>s. snd (register exampleLib ?req s)"
  let ?a = "\<lparr>a_id = 3, a_email = ''new@x.com'', a_passwordHash = ''h:pw''\<rparr>"
  have h: "body ?req ''email'' = Some (JStr ''new@x.com'')" "''new@x.com'' \<noteq> []"
    "body ?req ''password'' = Some (JStr ''pw'')" "''pw'' \<noteq> []"
    by (simp_all add: exampleRequest_def)
  have n: "find (\<lambda>a. a_email a = ''new@x.com'') (authUsers exampleStore) = None"
    by (simp add: exampleStore_def)
  have o: "?other (logged AuthUserFindUnique exampleStore) =
      exampleStore
        \<lparr>authUsers := authUsers exampleStore @ [?a], authUserSeq := 4,
         calls := [AuthUserFindUnique, AuthUserFindUnique, AuthUserCreate]\<rparr>"
    by (simp add: register_def registerAmong_def authUser_findUnique_def authUser_create_def
        example_defs logged_def Let_def)
  have f: "find (\<lambda>a. a_email a = ''new@x.com'')
             (authUsers (?other (logged AuthUserFindUnique exampleStore))) = Some ?a"
    unfolding o by (simp add: exampleStore_def)
  from register_race_surfaces_500 [where req = ?req and other = ?other and s = exampleStore
      and L = exampleLib, OF h n f]
  show ?thesis
    unfolding o by (simp add: logged_def)
qed

section \<open>Created and updated records\<close>

lemma authenticateToken_rejected:
  assumes "caller L req = None"
  shows "authenticateToken L req next s =
           (Response 401 (ErrorsObject ''No token provided'' (Some ''NO_TOKEN'')), s)
         \<or> authenticateToken L req next s =
           (Response 403
              (ErrorsObject ''Invalid or expired token - log out and log in again''
                 (Some ''INVALID_TOKEN'')), s)"
  using assms by (auto simp: caller_def authenticateToken_def split: option.splits if_splits)

lemma authenticateToken_passed:
  assumes "authenticateToken L req next s = (Response st b, s')" and "st \<noteq> 401" and "st \<noteq> 403"
  shows "\<exists>user. caller L req = Some user \<and> next user s = (Response st b, s')"
  using assms by (auto simp: caller_def authenticateToken_def split: option.splits if_splits)

lemma handlePrismaError_status:
  "\<exists>m. handlePrismaError err action = Response 404 (Message m)
     \<or> handlePrismaError err action = Response 500 (Message m)
     \<or> handlePrismaError err action = Response 400 (Message m)"
  by (auto simp: handlePrismaError_def Let_def)

lemma handlePrismaError_not_user [simp]:
  "handlePrismaError err action \<noteq> Response st (UserJson u)"
  using handlePrismaError_status [of err action] by auto

lemma user_create_Inr:
  assumes "user_create d s = (Inr u, s')"
  shows "\<exists>n e ag r ad ow.
           d_name d = Some (JStr n) \<and> d_email d = Some (JStr e) \<and> d_age d = Some (Some ag)
           \<and> d_role d = Some (JStr r) \<and> d_adult d = Some ad \<and> d_owner d = Some ow
           \<and> u = \<lparr>u_id = userSeq s, u_name = n, u_email = e, u_age = ag, u_role = r,
                   u_adult = ad, u_ownerId = ow\<rparr>
           \<and> s' = (logged UserCreate s)\<lparr>users := users s @ [u], userSeq := userSeq s + 1\<rparr>"
proof -
  from assms obtain n where n: "asString (d_name d) = Some n"
    by (cases "asString (d_name d)") (auto simp: user_create_def Let_def)
  from assms n obtain e where e: "asString (d_email d) = Some e"
    by (cases "asString (d_email d)") (auto simp: user_create_def Let_def)
  from assms n e obtain ag where ag: "d_age d = Some (Some ag)"
    by (cases "d_age d") (auto simp: user_create_def Let_def split: option.splits)
  from assms n e ag obtain r where r: "asString (d_role d) = Some r"
    by (cases "asString (d_role d)") (auto simp: user_create_def Let_def)
  from assms n e ag r obtain ad where ad: "d_adult d = Some ad"
    by (cases "d_adult d") (auto simp: user_create_def Let_def)
  from assms n e ag r ad obtain ow where ow: "d_owner d = Some ow"
    by (cases "d_owner d") (auto simp: user_create_def Let_def)
  have s: "asString v = Some x \<Longrightarrow> v = Some (JStr x)" for v x
    by (cases v rule: asString.cases) auto
  from assms n e ag r ad ow show ?thesis
    by (auto simp: user_create_def Let_def s split: if_splits)
qed

lemma postUsers_created:
  assumes "postUsers L req s = (Response 201 (UserJson u), s')"
  shows "\<exists>user n e ag r.
           caller L req = Some user
           \<and> body req ''name'' = Some (JStr n) \<and> body req ''email'' = Some (JStr e)
           \<and> parseIntValue (body req ''age'') = Some ag \<and> body req ''role'' = Some (JStr r)
           \<and> u = \<lparr>u_id = userSeq s, u_name = n, u_email = e, u_age = ag, u_role = r,
                   u_adult = (18 \<le> ag), u_ownerId = ident_id user\<rparr>
           \<and> s' = (logged UserCreate s)\<lparr>users := users s @ [u], userSeq := userSeq s + 1\<rparr>"
proof -
  from assms have "\<exists>user. caller L req = Some user \<and>
      (let errors = userValidators (isEmail L) Required Required Required Required (body req)
       in if errors \<noteq> [] then (Response 400 (ErrorsArray errors), s)
          else
            (let age = parseIntValue (body req ''age'');
                 newUser = \<lparr>d_name = body req ''name'', d_email = body req ''email'',
                            d_age = Some age, d_role = body req ''role'',
                            d_adult = Some (isAdult age), d_owner = Some (ident_id user)\<rparr>
             in case user_create newUser s of
                  (Inl err, s') \<Rightarrow> (handlePrismaError err ''Create user'', s')
                | (Inr u, s') \<Rightarrow> (Response 201 (UserJson u), s'))) =
      (Response 201 (UserJson u), s')"
    unfolding postUsers_def by (rule authenticateToken_passed) simp_all
  then obtain user where u: "caller L req = Some user"
    and c: "user_create \<lparr>d_name = body req ''name'', d_email = body req ''email'',
              d_age = Some (parseIntValue (body req ''age'')), d_role = body req ''role'',
              d_adult = Some (isAdult (parseIntValue (body req ''age''))),
              d_owner = Some (ident_id user)\<rparr> s = (Inr u, s')"
    by (auto simp: Let_def split: if_splits sum.splits prod.splits)
  from user_create_Inr [OF c] u show ?thesis
    by auto
qed

lemma user_update_Inr:
  assumes "user_update i d s = (Inr u, s')"
  shows "fitsInt i \<and> validUpdate d
         \<and> (\<exists>u0. find (\<lambda>v. u_id v = i) (users s) = Some u0 \<and> u = applyData d u0)
         \<and> s' = (logged UserUpdate s)
                  \<lparr>users := map (\<lambda>v. if u_id v = i then applyData d v else v) (users s)\<rparr>"
  using assms by (auto simp: user_update_def Let_def split: if_splits option.splits)

lemma putUser_updated:
  assumes "putUser L req s = (Response 200 (UserJson u), s')"
  shows "\<exists>i u0. parseInt (param_id req) = Some i
           \<and> validUpdate (updateData (body req))
           \<and> find (\<lambda>v. u_id v = i) (users s) = Some u0
           \<and> u = applyData (updateData (body req)) u0
           \<and> users s' =
               map (\<lambda>v. if u_id v = i then applyData (updateData (body req)) v else v) (users s)"
proof -
  from assms have "\<exists>user. caller L req = Some user \<and>
      (case parseInt (param_id req) of
         None \<Rightarrow> (Response 400 (Message ''Invalid ID''), s)
       | Some i \<Rightarrow>
           (let errors = userValidators (isEmail L) Optional Optional Optional Optional (body req)
            in if errors \<noteq> [] then (Response 400 (ErrorsArray errors), s)
               else
                 (case user_findFirst i (ident_id user) s of
                    (Inl err, s') \<Rightarrow> (handlePrismaError err ''Update user'', s')
                  | (Inr None, s') \<Rightarrow> (Response 404 (Message ''User not found''), s')
                  | (Inr (Some existing), s') \<Rightarrow>
                      (case user_update i (updateData (body req)) s' of
                         (Inl err, s'') \<Rightarrow> (handlePrismaError err ''Update user'', s'')
                       | (Inr u, s'') \<Rightarrow> (Response 200 (UserJson u), s''))))) =
      (Response 200 (UserJson u), s')"
    unfolding putUser_def by (rule authenticateToken_passed) simp_all
  then obtain user where "caller L req = Some user" and h:
      "(case parseInt (param_id req) of
         None \<Rightarrow> (Response 400 (Message ''Invalid ID''), s)
       | Some i \<Rightarrow>
           (let errors = userValidators (isEmail L) Optional Optional Optional Optional (body req)
            in if errors \<noteq> [] then (Response 400 (ErrorsArray errors), s)
               else
                 (case user_findFirst i (ident_id user) s of
                    (Inl err, s') \<Rightarrow> (handlePrismaError err ''Update user'', s')
                  | (Inr None, s') \<Rightarrow> (Response 404 (Message ''User not found''), s')
                  | (Inr (Some existing), s') \<Rightarrow>
                      (case user_update i (updateData (body req)) s' of
                         (Inl err, s'') \<Rightarrow> (handlePrismaError err ''Update user'', s'')
                       | (Inr u, s'') \<Rightarrow> (Response 200 (UserJson u), s''))))) =
      (Response 200 (UserJson u), s')"
    by blast
  from h obtain i where i: "parseInt (param_id req) = Some i"
    by (cases "parseInt (param_id req)") auto
  from h i have v: "userValidators (isEmail L) Optional Optional Optional Optional (body req) = []"
    by (auto simp: Let_def split: if_splits)
  from h i v obtain existing where
    "find (\<lambda>u. u_id u = i \<and> u_ownerId u = ident_id user) (users s) = Some existing"
    by (cases "find (\<lambda>u. u_id u = i \<and> u_ownerId u = ident_id user) (users s)")
      (auto simp: user_findFirst_def split: if_splits)
  with h i v have c:
    "(case user_update i (updateData (body req)) (logged UserFindFirst s) of
        (Inl err, s'') \<Rightarrow> (handlePrismaError err ''Update user'', s'')
      | (Inr u, s'') \<Rightarrow> (Response 200 (UserJson u), s'')) = (Response 200 (UserJson u), s')"
    by (auto simp: user_findFirst_def split: if_splits)
  then have "user_update i (updateData (body req)) (logged UserFindFirst s) = (Inr u, s')"
    by (auto split: prod.splits sum.splits)
  from user_update_Inr [OF this] i show ?thesis
    by (auto simp: logged_def)
qed

lemma applyData_id [simp]: "u_id (applyData d v) = u_id v"
  by (simp add: applyData_def)

lemma applyData_age_supplied:
  assumes "validUpdate (updateData b)" and "b ''age'' \<noteq> None"
  shows "u_adult (applyData (updateData b) v) = (18 \<le> u_age (applyData (updateData b) v))
         \<and> parseIntValue (b ''age'') = Some (u_age (applyData (updateData b) v))"
  using assms
  by (cases "parseIntValue (b ''age'')")
    (auto simp: validUpdate_def updateData_def applyData_def Let_def)

lemma applyData_age_absent:
  assumes "b ''age'' = None"
  shows "u_adult (applyData (updateData b) v) = u_adult v
         \<and> u_age (applyData (updateData b) v) = u_age v"
  using assms by (simp add: updateData_def applyData_def)

lemma userValidators_adult:
  "userValidators e pn pe pa pr (b(''adult'' := x)) = userValidators e pn pe pa pr b"
  by (simp add: userValidators_def runChain_def)

lemma updateData_adult: "updateData (b(''adult'' := x)) = updateData b"
  by (simp add: updateData_def)

lemma authenticateToken_rejected_snd:
  "caller L req = None \<Longrightarrow> snd (authenticateToken L req next s) = s"
  using authenticateToken_rejected [of L req "next" s] by auto

lemma user_create_failed:
  "(\<exists>u. fst (user_create d s) = Inr u) \<or> snd (user_create d s) = logged UserCreate s"
  by (simp add: user_create_def Let_def split: option.split)

lemma snd_case_result:
  "snd (case p of (Inl err, s') \<Rightarrow> (f err, s') | (Inr u, s') \<Rightarrow> (g u, s')) = snd p"
  by (cases p) (auto split: sum.splits)

lemma fst_case_result:
  "fst p = Inr u \<Longrightarrow>
   (case p of (Inl err, s') \<Rightarrow> (f err, s') | (Inr u, s') \<Rightarrow> (g u, s')) = (g u, snd p)"
  by (cases p) auto

lemma postUsers_keeps_adultConsistent:
  assumes "list_all adultConsistent (users s)"
  shows "list_all adultConsistent (users (snd (postUsers L req s)))"
proof (cases "caller L req")
  case None
  with assms show ?thesis
    by (simp add: postUsers_def authenticateToken_rejected_snd)
next
  case (Some user)
  let ?d = "\<lparr>d_name = body req ''name'', d_email = body req ''email'',
              d_age = Some (parseIntValue (body req ''age'')), d_role = body req ''role'',
              d_adult = Some (isAdult (parseIntValue (body req ''age''))),
              d_owner = Some (ident_id user)\<rparr>"
  show ?thesis
  proof (cases "userValidators (isEmail L) Required Required Required Required (body req) = []")
    case False
    with Some assms show ?thesis
      by (simp add: postUsers_def authenticateToken_caller)
  next
    case True
    with Some have p: "postUsers L req s =
        (case user_create ?d s of
           (Inl err, s') \<Rightarrow> (handlePrismaError err ''Create user'', s')
         | (Inr u, s') \<Rightarrow> (Response 201 (UserJson u), s'))"
      by (simp add: postUsers_def authenticateToken_caller Let_def)
    from user_create_failed [of ?d s] show ?thesis
    proof
      assume "\<exists>u. fst (user_create ?d s) = Inr u"
      then obtain u where "fst (user_create ?d s) = Inr u" ..
      then have q: "postUsers L req s = (Response 201 (UserJson u), snd (user_create ?d s))"
        unfolding p by (rule fst_case_result)
      from postUsers_created [OF q]
      have "users (snd (user_create ?d s)) = users s @ [u]" and "adultConsistent u"
        by (auto simp: adultConsistent_def logged_def)
      with assms q show ?thesis
        by simp
    next
      assume "snd (user_create ?d s) = logged UserCreate s"
      with assms show ?thesis
        by (simp add: p snd_case_result logged_def)
    qed
  qed
qed

lemma user_update_users:
  "users (snd (user_update i d s)) = users s
   \<or> (validUpdate d
       \<and> users (snd (user_update i d s)) =
           map (\<lambda>v. if u_id v = i then applyData d v else v) (users s))"
  by (simp add: user_update_def Let_def logged_def split: option.split)

lemma putUser_users:
  "users (snd (putUser L req s)) = users s
   \<or> (\<exists>i. validUpdate (updateData (body req))
          \<and> users (snd (putUser L req s)) =
              map (\<lambda>v. if u_id v = i then applyData (updateData (body req)) v else v) (users s))"
proof (cases "caller L req")
  case None
  then show ?thesis
    by (simp add: putUser_def authenticateToken_rejected_snd)
next
  case (Some user)
  show ?thesis
  proof (cases "parseInt (param_id req)")
    case None
    with Some show ?thesis
      by (simp add: putUser_def authenticateToken_caller)
  next
    case i: (Some i)
    show ?thesis
    proof (cases "userValidators (isEmail L) Optional Optional Optional Optional (body req) = []")
      case False
      with Some i show ?thesis
        by (simp add: putUser_def authenticateToken_caller)
    next
      case True
      show ?thesis
      proof (cases "fitsInt i \<and>
          find (\<lambda>u. u_id u = i \<and> u_ownerId u = ident_id user) (users s) \<noteq> None")
        case False
        with Some i True show ?thesis
          by (auto simp: putUser_def authenticateToken_caller user_findFirst_def logged_def)
      next
        case found: True
        with \<open>caller L req = Some user\<close> i True
        have "snd (putUser L req s) =
              snd (user_update i (updateData (body req)) (logged UserFindFirst s))"
          by (auto simp: putUser_def authenticateToken_caller user_findFirst_def snd_case_result)
        with user_update_users [of i "updateData (body req)" "logged UserFindFirst s"]
        show ?thesis
          by (auto simp: logged_def)
      qed
    qed
  qed
qed

lemma applyData_keeps_adultConsistent:
  assumes "validUpdate (updateData b)" and "adultConsistent v"
  shows "adultConsistent (applyData (updateData b) v)"
proof (cases "b ''age''")
  case None
  from applyData_age_absent [of b v] None assms(2) show ?thesis
    by (simp add: adultConsistent_def)
next
  case (Some a)
  then have "b ''age'' \<noteq> None" by simp
  from applyData_age_supplied [OF assms(1) this, of v] show ?thesis
    by (simp add: adultConsistent_def)
qed

lemma putUser_keeps_adultConsistent:
  assumes "list_all adultConsistent (users s)"
  shows "list_all adultConsistent (users (snd (putUser L req s)))"
  using putUser_users [of L req s] assms
  by (auto simp: list_all_iff applyData_keeps_adultConsistent)

lemma userValidators_cong:
  assumes "b1 ''name'' = b2 ''name''" and "b1 ''email'' = b2 ''email''"
    and "b1 ''age'' = b2 ''age''" and "b1 ''role'' = b2 ''role''"
  shows "userValidators e pn pe pa pr b1 = userValidators e pn pe pa pr b2"
  using assms by (simp add: userValidators_def runChain_def)

lemma updateData_cong:
  assumes "b1 ''name'' = b2 ''name''" and "b1 ''email'' = b2 ''email''"
    and "b1 ''age'' = b2 ''age''" and "b1 ''role'' = b2 ''role''"
  shows "updateData b1 = updateData b2"
  using assms by (simp add: updateData_def)

lemma postUsers_cong:
  assumes "authorization r1 = authorization r2"
    and "body r1 ''name'' = body r2 ''name''" and "body r1 ''email'' = body r2 ''email''"
    and "body r1 ''age'' = body r2 ''age''" and "body r1 ''role'' = body r2 ''role''"
  shows "postUsers L r1 s = postUsers L r2 s"
  unfolding postUsers_def authenticateToken_def
    userValidators_cong [OF assms(2-5), of "isEmail L" Required Required Required Required]
    assms
  by (rule refl)

lemma putUser_cong:
  assumes "authorization r1 = authorization r2" and "param_id r1 = param_id r2"
    and "body r1 ''name'' = body r2 ''name''" and "body r1 ''email'' = body r2 ''email''"
    and "body r1 ''age'' = body r2 ''age''" and "body r1 ''role'' = body r2 ''role''"
  shows "putUser L r1 s = putUser L r2 s"
  unfolding putUser_def authenticateToken_def
    userValidators_cong [OF assms(3-6), of "isEmail L" Optional Optional Optional Optional]
    updateData_cong [OF assms(3-6)] assms(1,2)
  by (rule refl)

lemma postUsers_adult_ignored:
  "postUsers L (req\<lparr>body := (body req)(''adult'' := x)\<rparr>) s = postUsers L req s"
  by (rule postUsers_cong) simp_all

lemma putUser_adult_ignored:
  "putUser L (req\<lparr>body := (body req)(''adult'' := x)\<rparr>) s = putUser L req s"
  by (rule putUser_cong) simp_all

text \<open>
  Claim C7. A record created by \<open>POST /users\<close> is appended to the table with \<open>adult\<close>
  equal to \<open>age \<ge> 18\<close>, its age being the number read from the body. A record returned
  by a successful \<open>PUT /users/:id\<close> has \<open>adult\<close> equal to \<open>age \<ge> 18\<close> for the new age when
  the body supplies an age, and the \<open>adult\<close> and \<open>age\<close> it had when the body supplies
  none. Both handlers keep a table in which every record has \<open>adult\<close> equal to
  \<open>age \<ge> 18\<close> in that state, whatever the request. A field \<open>adult\<close> of the body has no
  effect on either handler.
\<close>

theorem adult_follows_age:
  "(postUsers L req s = (Response 201 (UserJson u), s') \<longrightarrow>
      users s' = users s @ [u] \<and> adultConsistent u
      \<and> parseIntValue (body req ''age'') = Some (u_age u))
   \<and> (putUser L req s = (Response 200 (UserJson u), s') \<longrightarrow>
        (body req ''age'' \<noteq> None \<longrightarrow>
           adultConsistent u \<and> parseIntValue (body req ''age'') = Some (u_age u))
        \<and> (body req ''age'' = None \<longrightarrow>
           (\<exists>u0\<in>set (users s). u_id u0 = u_id u \<and> u_adult u = u_adult u0 \<and> u_age u = u_age u0)))
   \<and> (list_all adultConsistent (users s) \<longrightarrow>
        list_all adultConsistent (users (snd (postUsers L req s)))
        \<and> list_all adultConsistent (users (snd (putUser L req s))))
   \<and> postUsers L (req\<lparr>body := (body req)(''adult'' := x)\<rparr>) s = postUsers L req s
   \<and> putUser L (req\<lparr>body := (body req)(''adult'' := x)\<rparr>) s = putUser L req s"
proof -
  have created: "users s' = users s @ [u] \<and> adultConsistent u
      \<and> parseIntValue (body req ''age'') = Some (u_age u)"
    if "postUsers L req s = (Response 201 (UserJson u), s')"
    using postUsers_created [OF that] by (auto simp: adultConsistent_def logged_def)
  have updated: "(body req ''age'' \<noteq> None \<longrightarrow>
           adultConsistent u \<and> parseIntValue (body req ''age'') = Some (u_age u))
        \<and> (body req ''age'' = None \<longrightarrow>
           (\<exists>u0\<in>set (users s). u_id u0 = u_id u \<and> u_adult u = u_adult u0 \<and> u_age u = u_age u0))"
    if "putUser L req s = (Response 200 (UserJson u), s')"
  proof -
    from putUser_updated [OF that] obtain i u0 where
      v: "validUpdate (updateData (body req))"
      and f: "find (\<lambda>v. u_id v = i) (users s) = Some u0"
      and u: "u = applyData (updateData (body req)) u0"
      by blast
    from f have m: "u0 \<in> set (users s)"
      by (auto simp: find_Some_iff)
    show ?thesis
    proof (intro conjI impI)
      assume a: "body req ''age'' \<noteq> None"
      from applyData_age_supplied [OF v a, of u0] u
      show "adultConsistent u" and "parseIntValue (body req ''age'') = Some (u_age u)"
        by (simp_all add: adultConsistent_def)
    next
      assume a: "body req ''age'' = None"
      from applyData_age_absent [of "body req" u0] a u m
      show "\<exists>u0\<in>set (users s). u_id u0 = u_id u \<and> u_adult u = u_adult u0 \<and> u_age u = u_age u0"
        by auto
    qed
  qed
  from created updated show ?thesis
    by (simp add: postUsers_keeps_adultConsistent putUser_keeps_adultConsistent
        postUsers_adult_ignored putUser_adult_ignored)
qed

theorem adult_follows_age_witness:
  "postUsers exampleLib
     (exampleRequest (Some ''Bearer tokA'') []
        [(''name'', JStr ''Bob''), (''email'', JStr ''b@x.com''), (''age'', JNum 17),
         (''role'', JStr ''user''), (''adult'', JBool True)])
     exampleStore =
   (Response 201 (UserJson
      \<lparr>u_id = 3, u_name = ''Bob'', u_email = ''b@x.com'', u_age = 17, u_role = ''user'',
        u_adult = False, u_ownerId = 1\<rparr>),
    exampleStore
      \<lparr>users := users exampleStore @
         [\<lparr>u_id = 3, u_name = ''Bob'', u_email = ''b@x.com'', u_age = 17, u_role = ''user'',
           u_adult = False, u_ownerId = 1\<rparr>],
       userSeq := 4, calls := [UserCreate]\<rparr>)
   \<and> adultConsistent
        \<lparr>u_id = 3, u_name = ''Bob'', u_email = ''b@x.com'', u_age = 17, u_role = ''user'',
          u_adult = False, u_ownerId = 1\<rparr>
   \<and> putUser exampleLib (exampleRequest (Some ''Bearer tokA'') ''1'' [(''age'', JStr ''19'')])
       exampleStore =
   (Response 200 (UserJson
      \<lparr>u_id = 1, u_name = ''Bob'', u_email = ''b@x.com'', u_age = 19, u_role = ''user'',
        u_adult = True, u_ownerId = 1\<rparr>),
    exampleStore
      \<lparr>users :=
         [\<lparr>u_id = 1, u_name = ''Bob'', u_email = ''b@x.com'', u_age = 19, u_role = ''user'',
           u_adult = True, u_ownerId = 1\<rparr>,
          \<lparr>u_id = 2, u_name = ''Eve'', u_email = ''e@x.com'', u_age = 40, u_role = ''admin'',
           u_adult = True, u_ownerId = 2\<rparr>],
       calls := [UserFindFirst, UserUpdate]\<rparr>)
   \<and> adultConsistent
        \<lparr>u_id = 1, u_name = ''Bob'', u_email = ''b@x.com'', u_age = 19, u_role = ''user'',
          u_adult = True, u_ownerId = 1\<rparr>"
proof -
  let ?post = "exampleRequest (Some ''Bearer tokA'') []
        [(''name'', JStr ''Bob''), (''email'', JStr ''b@x.com''), (''age'', JNum 17),
         (''role'', JStr ''user''), (''adult'', JBool True)]"
  let ?put = "exampleRequest (Some ''Bearer tokA'') ''1'' [(''age'', JStr ''19'')]"
  let ?u = "\<lparr>u_id = 3, u_name = ''Bob'', u_email = ''b@x.com'', u_age = 17, u_role = ''user'',
        u_adult = False, u_ownerId = 1\<rparr>"
  let ?v = "\<lparr>u_id = 1, u_name = ''Bob'', u_email = ''b@x.com'', u_age = 19, u_role = ''user'',
        u_adult = True, u_ownerId = 1\<rparr>"
  let ?s1 = "exampleStore\<lparr>users := users exampleStore @ [?u], userSeq := 4,
        calls := [UserCreate]\<rparr>"
  let ?s2 = "exampleStore
      \<lparr>users := [?v,
          \<lparr>u_id = 2, u_name = ''Eve'', u_email = ''e@x.com'', u_age = 40, u_role = ''admin'',
           u_adult = True, u_ownerId = 2\<rparr>],
       calls := [UserFindFirst, UserUpdate]\<rparr>"
  have p: "postUsers exampleLib ?post exampleStore = (Response 201 (UserJson ?u), ?s1)"
    by (simp add: postUsers_def authenticateToken_def example_defs number_defs validator_defs
        user_create_def logged_def Let_def)
  have q: "putUser exampleLib ?put exampleStore = (Response 200 (UserJson ?v), ?s2)"
    by (simp add: putUser_def authenticateToken_def example_defs number_defs validator_defs
        user_findFirst_def user_update_def updateData_def validUpdate_def applyData_def
        logged_def Let_def)
  have a: "body ?put ''age'' \<noteq> None"
    by (simp add: exampleRequest_def)
  from adult_follows_age [of exampleLib ?post exampleStore ?u ?s1] p
  have c1: "adultConsistent ?u" by blast
  from adult_follows_age [of exampleLib ?put exampleStore ?v ?s2] q a
  have c2: "adultConsistent ?v" by blast
  from p q c1 c2 show ?thesis by (simp only: simp_thms)
qed



section \<open>The two modules\<close>

lemma sameOutcome_refl [simp]: "sameOutcome a a"
  by (cases "(a, a)" rule: sameOutcome.cases) auto






















end
